theory Spec2Isabelle
  imports Main "HOL-Library.Char_ord" "HOL-Library.List_Lexorder"
begin

section \<open>Python strings\<close>

text \<open>
  A Python \<open>str\<close> is modelled as a \<open>string\<close> whose characters are the code points
  below 256. The character classes are those of Python on that range.
\<close>

definition isspace :: "char \<Rightarrow> bool" where
  "isspace c = ((of_char c :: nat) \<in> {9, 10, 11, 12, 13, 28, 29, 30, 31, 32, 133, 160})"

definition isdigit :: "char \<Rightarrow> bool" where
  "isdigit c = (48 \<le> (of_char c :: nat) \<and> (of_char c :: nat) \<le> 57)"

definition isnumeric :: "char \<Rightarrow> bool" where
  "isnumeric c = (isdigit c \<or> (of_char c :: nat) \<in> {178, 179, 185, 188, 189, 190})"

definition isalpha :: "char \<Rightarrow> bool" where
  "isalpha c = (let n = (of_char c :: nat) in
     (65 \<le> n \<and> n \<le> 90) \<or> (97 \<le> n \<and> n \<le> 122) \<or> n \<in> {170, 181, 186} \<or>
     (192 \<le> n \<and> n \<le> 214) \<or> (216 \<le> n \<and> n \<le> 246) \<or> (248 \<le> n \<and> n \<le> 255))"

definition isalnum :: "char \<Rightarrow> bool" where
  "isalnum c = (isalpha c \<or> isnumeric c)"

definition lower :: "char \<Rightarrow> char" where
  "lower c = (let n = (of_char c :: nat) in
     if (65 \<le> n \<and> n \<le> 90) \<or> (192 \<le> n \<and> n \<le> 222 \<and> n \<noteq> 215)
     then char_of (n + 32) else c)"

text \<open>\<open>s.startswith(p)\<close>, also what \<open>s[:n] == p\<close> tests when \<open>n = len(p)\<close>.\<close>

definition startswith :: "string \<Rightarrow> string \<Rightarrow> bool" where
  "startswith s p = (take (length p) s = p)"

text \<open>\<open>s.find(sub, start)\<close>: the least index at or after \<open>start\<close> where \<open>sub\<close>
  begins, or \<open>-1\<close>.\<close>

fun find_from :: "string \<Rightarrow> string \<Rightarrow> nat \<Rightarrow> int" where
  "find_from [] sub k = (if sub = [] then int k else - 1)"
| "find_from (c # cs) sub k =
     (if startswith (c # cs) sub then int k else find_from cs sub (Suc k))"

definition py_find :: "string \<Rightarrow> string \<Rightarrow> nat \<Rightarrow> int" where
  "py_find s sub start = (if start > length s then - 1 else find_from (drop start s) sub start)"

text \<open>\<open>sub in s\<close>.\<close>

definition contains :: "string \<Rightarrow> string \<Rightarrow> bool" where
  "contains s sub = (py_find s sub 0 \<noteq> - 1)"

text \<open>\<open>s[i]\<close> for an index within \<open>-len(s) \<le> i < len(s)\<close>: a negative index counts
  from the end.\<close>

definition at :: "'a list \<Rightarrow> int \<Rightarrow> 'a" where
  "at xs i = (if i < 0 then xs ! nat (int (length xs) + i) else xs ! nat i)"

text \<open>The characters \<open>s[a], ..., s[b - 1]\<close> that a loop over \<open>range(a, b)\<close> appends.\<close>

definition chars :: "string \<Rightarrow> int \<Rightarrow> int \<Rightarrow> string" where
  "chars s a b = map (at s) [a..b - 1]"

text \<open>\<open>s.split(sep)\<close> for a one-character separator, and \<open>re.split\<close> on a
  character class: the separator test is \<open>p\<close>.\<close>

fun split_acc :: "(char \<Rightarrow> bool) \<Rightarrow> string \<Rightarrow> string \<Rightarrow> string list" where
  "split_acc p cur [] = [rev cur]"
| "split_acc p cur (c # cs) =
     (if p c then rev cur # split_acc p [] cs else split_acc p (c # cur) cs)"

definition split_on :: "(char \<Rightarrow> bool) \<Rightarrow> string \<Rightarrow> string list" where
  "split_on p s = split_acc p [] s"

text \<open>\<open>s.split()\<close>: the maximal runs of non-whitespace.\<close>

definition split_ws :: "string \<Rightarrow> string list" where
  "split_ws s = filter (\<lambda>w. w \<noteq> []) (split_on isspace s)"

text \<open>\<open>sep.join(xs)\<close>.\<close>

fun join :: "string \<Rightarrow> string list \<Rightarrow> string" where
  "join sep [] = []"
| "join sep [x] = x"
| "join sep (x # y # ys) = x @ sep @ join sep (y # ys)"

text \<open>\<open>s.strip()\<close>.\<close>

definition strip :: "string \<Rightarrow> string" where
  "strip s = rev (dropWhile isspace (rev (dropWhile isspace s)))"

text \<open>\<open>int(s)\<close> in base 10: whitespace around, an optional sign, then decimal digits
  in groups separated by single underscores, at most 4300 digits (the default limit of
  CPython), the underscores not counted. \<open>None\<close> is \<open>ValueError\<close>. The whitespace
  of \<open>int\<close> is the ASCII whitespace and the spaces beyond ASCII; the separators
  U+001C to U+001F, whitespace for \<open>str.strip\<close> and \<open>str.split\<close>, are none for
  \<open>int\<close>.\<close>

definition int_space :: "char \<Rightarrow> bool" where
  "int_space c = ((of_char c :: nat) \<in> {9, 10, 11, 12, 13, 32, 133, 160})"

fun digits_val :: "string \<Rightarrow> nat \<Rightarrow> nat" where
  "digits_val [] acc = acc"
| "digits_val (c # cs) acc =
     (if c = CHR ''_'' then digits_val cs acc
      else digits_val cs (10 * acc + ((of_char c :: nat) - 48)))"

definition digits_ok :: "string \<Rightarrow> bool" where
  "digits_ok s = (let gs = split_on (\<lambda>c. c = CHR ''_'') s in
     list_all (\<lambda>g. g \<noteq> [] \<and> list_all isdigit g) gs \<and>
     length (filter (\<lambda>c. c \<noteq> CHR ''_'') s) \<le> 4300)"

definition py_int :: "string \<Rightarrow> int option" where
  "py_int s = (let t = rev (dropWhile int_space (rev (dropWhile int_space s))) in
     case t of
       [] \<Rightarrow> None
     | c # cs \<Rightarrow>
         if c = CHR ''-'' then (if digits_ok cs then Some (- int (digits_val cs 0)) else None)
         else if c = CHR ''+'' then (if digits_ok cs then Some (int (digits_val cs 0)) else None)
         else (if digits_ok t then Some (int (digits_val t 0)) else None))"

text \<open>Whether \<open>float(s)\<close> succeeds on a string of numeric characters, full stops and
  minus signs (the only strings the coordinate readers pass it): an optional minus sign,
  then decimal digits with at most one full stop and at least one digit.\<close>

definition float_ok :: "string \<Rightarrow> bool" where
  "float_ok s = (let t = (case s of c # cs \<Rightarrow> (if c = CHR ''-'' then cs else s) | [] \<Rightarrow> s) in
     list_all (\<lambda>c. isdigit c \<or> c = CHR ''.'') t \<and>
     length (filter (\<lambda>c. c = CHR ''.'') t) \<le> 1 \<and>
     list_ex isdigit t)"

section \<open>Coordinates of the findspot (EDCS\_Extract.py)\<close>

text \<open>What \<open>get_lat\<close> and \<open>get_long\<close> return: \<open>np.nan\<close> when the tag is missing,
  the float read from a text, the text itself when it is no float, or \<open>None\<close> when the
  loop ends without a return.\<close>

datatype coord = NaN | Float string | Str string | PyNone

text \<open>The loop \<open>for i in range(start + n, len(place))\<close> of \<open>get_lat\<close> and
  \<open>get_long\<close>, over the characters that are left, with the result collected so far.\<close>

fun coord_loop :: "string \<Rightarrow> string \<Rightarrow> coord" where
  "coord_loop [] result = PyNone"
| "coord_loop (c # cs) result =
     (if isnumeric c \<or> c = CHR ''.'' \<or> c = CHR ''-'' then coord_loop cs (result @ [c])
      else if float_ok result then Float result else Str result)"

definition get_lat :: "string \<Rightarrow> coord" where
  "get_lat place = (let start = py_find place ''latitude='' 0 in
     if start = - 1 then NaN
     else coord_loop (drop (nat (start + 9)) place) [])"

definition get_long :: "string \<Rightarrow> coord" where
  "get_long place = (let start = py_find place ''longitude='' 0 in
     if start = - 1 then NaN
     else coord_loop (drop (nat (start + 10)) place) [])"

section \<open>The markup normalizer (EDCS\_Extract.py)\<close>

definition get_findspot :: "string \<Rightarrow> string option" where
  "get_findspot place = (let start = py_find place ''>'' 0 in
     if start = - 1 then Some ''error''
     else (let rest = drop (nat (start + 1)) place in
       if CHR ''<'' \<in> set rest then Some (takeWhile (\<lambda>c. c \<noteq> CHR ''<'') rest) else None))"

definition get_province :: "string \<Rightarrow> string" where
  "get_province place = (let start = py_find place ''provinz='' 0 in
     if start = - 1 then ''error''
     else takeWhile (\<lambda>c. isalnum c \<or> isspace c \<or> c = CHR ''/'') (drop (nat (start + 8)) place))"

text \<open>\<open>missing(text, i)\<close>. The second test of the source reads \<open>text[i].isnumeric\<close>
  without a call: a bound method, which is true. Under the guard \<open>i < len(text) - 2\<close>
  the indices \<open>i - 1\<close> and \<open>i - 2\<close> may be negative and then count from the end.\<close>

definition missing :: "string \<Rightarrow> int \<Rightarrow> bool" where
  "missing text i =
     (if i < int (length text) - 2 then
        (if at text i = CHR ''['' \<and> isnumeric (at text (i + 1)) \<and> at text (i + 2) = CHR '']''
         then True
         else if at text (i - 1) = CHR ''['' \<and> True \<and> at text (i + 1) = CHR '']''
         then True
         else if at text (i - 2) = CHR ''['' \<and> isnumeric (at text (i - 1)) \<and> at text i = CHR '']''
         then True
         else False)
      else False)"

lemma find_from_ge: "find_from s sub k \<noteq> - 1 \<Longrightarrow> int k \<le> find_from s sub k"
  by (induction s sub k rule: find_from.induct) (auto split: if_splits)

lemma py_find_ge: "py_find s sub start \<noteq> - 1 \<Longrightarrow> int start \<le> py_find s sub start"
  by (auto simp: py_find_def dest: find_from_ge split: if_splits)

text \<open>The \<open>while\<close> loop of \<open>correct_text\<close>: for every opening marker found, its
  position, the position of the next \<open>=\<close> and the position of the next \<open>>\<close>
  (\<open>opening_list\<close>, \<open>equals_list\<close>, \<open>closing_list\<close>, zipped).\<close>

function correct_scan :: "string \<Rightarrow> int \<Rightarrow> (int \<times> int \<times> int) list" where
  "correct_scan text opens =
     (if opens \<noteq> - 1 \<and> opens + 1 < int (length text) then
        (opens, py_find text ''='' (nat opens), py_find text ''>'' (nat opens))
          # correct_scan text (py_find text ''<'' (nat (opens + 1)))
      else [])"
  by pat_completeness auto
termination
proof (relation "measure (\<lambda>(text, opens). if opens = - 1 then 0 else nat (int (length text) + 2 - opens))")
  show "wf (measure (\<lambda>(text, opens). if opens = - 1 then 0 else nat (int (length text) + 2 - opens)))"
    by simp
next
  fix t :: string and opens :: int
  assume a: "opens \<noteq> - 1 \<and> opens + 1 < int (length t)"
  let ?n = "py_find t ''<'' (nat (opens + 1))"
  have b: "opens + 1 \<le> int (nat (opens + 1))"
    by simp
  have "?n = - 1 \<or> opens < ?n"
  proof (cases "?n = - 1")
    case True
    then show ?thesis by simp
  next
    case False
    then have "int (nat (opens + 1)) \<le> ?n"
      by (rule py_find_ge)
    with b show ?thesis by linarith
  qed
  with a show "((t, ?n), (t, opens))
      \<in> measure (\<lambda>(text, opens). if opens = - 1 then 0 else nat (int (length text) + 2 - opens))"
    by auto
qed

text \<open>The two \<open>for\<close> loops of \<open>correct_text\<close> over the spans, then the copy of the rest.\<close>

fun correct_spans :: "string \<Rightarrow> (int \<times> int \<times> int) list \<Rightarrow> int \<Rightarrow> string \<Rightarrow> string" where
  "correct_spans text [] closing corrected =
     corrected @ chars text closing (int (length text))"
| "correct_spans text ((opening, equals, closes) # spans) closing corrected =
     correct_spans text spans (closes + 1)
       (corrected @ chars text closing opening @ map lower (chars text (opening + 1) equals))"

definition correct_text :: "string \<Rightarrow> string" where
  "correct_text text = correct_spans text (correct_scan text (py_find text ''<'' 0)) 0 []"

function superficial_scan :: "string \<Rightarrow> int \<Rightarrow> (int \<times> int) list" where
  "superficial_scan text opens =
     (if opens \<noteq> - 1 \<and> opens + 1 < int (length text) then
        (opens, py_find text ''}'' (nat opens))
          # superficial_scan text (py_find text ''{'' (nat (opens + 1)))
      else [])"
  by pat_completeness auto
termination
proof (relation "measure (\<lambda>(text, opens). if opens = - 1 then 0 else nat (int (length text) + 2 - opens))")
  show "wf (measure (\<lambda>(text, opens). if opens = - 1 then 0 else nat (int (length text) + 2 - opens)))"
    by simp
next
  fix t :: string and opens :: int
  assume a: "opens \<noteq> - 1 \<and> opens + 1 < int (length t)"
  let ?n = "py_find t ''{'' (nat (opens + 1))"
  have b: "opens + 1 \<le> int (nat (opens + 1))"
    by simp
  have "?n = - 1 \<or> opens < ?n"
  proof (cases "?n = - 1")
    case True
    then show ?thesis by simp
  next
    case False
    then have "int (nat (opens + 1)) \<le> ?n"
      by (rule py_find_ge)
    with b show ?thesis by linarith
  qed
  with a show "((t, ?n), (t, opens))
      \<in> measure (\<lambda>(text, opens). if opens = - 1 then 0 else nat (int (length text) + 2 - opens))"
    by auto
qed

fun superficial_spans :: "string \<Rightarrow> (int \<times> int) list \<Rightarrow> int \<Rightarrow> string \<Rightarrow> string" where
  "superficial_spans text [] closing result = result @ chars text closing (int (length text))"
| "superficial_spans text ((opening, closes) # spans) closing result =
     superficial_spans text spans (closes + 1) (result @ chars text closing opening)"

definition remove_superficial_letters :: "string \<Rightarrow> string" where
  "remove_superficial_letters text =
     superficial_spans text (superficial_scan text (py_find text ''{'' 0)) 0 []"

definition get_cleantext :: "string \<Rightarrow> string" where
  "get_cleantext text =
     (let equals = py_find text ''='' 0;
          curly = py_find text ''{'' 0;
          text1 = (if equals \<noteq> - 1 then correct_text text else text);
          text2 = (if curly \<noteq> - 1 then remove_superficial_letters text1 else text1);
          result = map (at text2)
            (filter (\<lambda>i. isspace (at text2 i) \<or> isalpha (at text2 i) \<or> missing text2 i)
               [0..int (length text2) - 1])
      in join '' '' (split_ws result))"

section \<open>The field extractor (EDCS\_Extract.py)\<close>

text \<open>The list as the source writes it: \<open>'Aquitanica' 'Cyprus'\<close> has no comma between
  the two literals, which Python joins into one.\<close>

definition province_list :: "string list" where
  "province_list =
     [''Achaia'', ''Baetica'', ''Galatia'', ''Mauretania Tingitana'',
      ''Regnum Bospori'', ''Aegyptus'', ''Barbaricum'', ''Raetia'',
      ''Gallia Narbonensis'', ''Mesopotamia'', ''Roma'', ''Asia'',
      ''Aemilia / Regio VIII'', ''Belgica'', ''Germania inferior'',
      ''Moesia inferior'', ''Samnium / Regio IV'', ''Armenia'',
      ''Africa proconsularis'', ''Britannia'', ''Germania superior'',
      ''Moesia superior'', ''Sardinia'', ''Alpes Cottiae'', ''Dacia'',
      ''Bruttium et Lucania / Regio III'', ''Hispania citerior'',
      ''Noricum'', ''Sicilia'', ''Alpes Graiae'', ''Cappadocia'',
      ''Italia'', ''Numidia'', ''Syria'', ''Alpes Maritimae'', ''Arabia'',
      ''Cilicia'', ''Latium et Campania / Regio I'', ''Palaestina'',
      ''Thracia'', ''Alpes Poeninae'', ''Corsica'', ''Macedonia'',
      ''Liguria / Regio IX'', ''Pannonia inferior'', ''Dalmatia'',
      ''Transpadana / Regio XI'', ''Apulia et Calabria / Regio II'',
      ''Creta et Cyrenaica'', ''Lugudunensis'', ''Pannonia superior'',
      ''Umbria / Regio VI'', ''Aquitania'', ''AquitanicaCyprus'',
      ''Lusitania'', ''Picenum / Regio V'', ''Pontus et Bithynia'',
      ''Venetia et Histria / Regio X'', ''Provincia incerta'',
      ''Lycia et Pamphylia'', ''Etruria / Regio VII'',
      ''Mauretania Caesariensis'', ''Aquitani(c)a'']"

text \<open>The test of the \<open>elif\<close> branch of \<open>search_province\<close>: the fragment has a
  \<open>|\<close> and one of its parts, stripped, is a province.\<close>

definition part_matches :: "string \<Rightarrow> bool" where
  "part_matches elem =
     (CHR ''|'' \<in> set elem \<and>
      list_ex (\<lambda>part. strip part \<in> set province_list) (split_on (\<lambda>c. c = CHR ''|'') elem))"

fun search_province :: "string list \<Rightarrow> string" where
  "search_province [] = ''n/a''"
| "search_province (elem # insc) =
     (if elem \<in> set province_list then elem
      else if part_matches elem then elem
      else search_province insc)"

definition keyword_list :: "string list" where
  "keyword_list =
     [''carmina'', ''signacula'', ''Augusti/Augustae'',
      ''praenomen et nomen'', ''defixiones'', ''signacula medicorum'',
      ''liberti/libertae'', ''reges'', ''diplomata militaria'',
      ''termini'', ''milites'', ''sacerdotes christiani'',
      ''inscriptiones christianae'', ''tesserae nummulariae'',
      ''mulieres'', ''sacerdotes pagani'', ''leges'',
      ''tituli fabricationis'', ''nomen singulare'', ''servi/servae'',
      ''litterae erasae '', ''tituli honorarii'',
      ''officium/professio'', ''seviri Augustales'',
      ''litterae in litura'', ''tituli operum'', ''ordo decurionum'',
      ''tria nomina'', ''miliaria'', ''tituli possessionis'',
      ''ordo equester'', ''viri'', ''senatus consulta'', ''tituli sacri'',
      ''ordo senatorius'', ''sigilla impressa'', ''tituli sepulcrales'']"

definition material_list :: "string list" where
  "material_list =
     [''aes'', ''cyprum'', ''lignum'', ''os'', ''sucineus'', ''argentum'',
      ''ferrum'', ''musivum'', ''plumbum'', ''tectorium'', ''aurum'',
      ''gemma'', ''opus figlinae'', ''rupes'', ''textum'', ''corium'',
      ''lapis'', ''orichalcum'', ''steatitis'', ''vitrum'']"

datatype error = IndexError | ValueError

text \<open>\<open>xs[i]\<close> where the index may be out of range.\<close>

definition index :: "'a list \<Rightarrow> int \<Rightarrow> error + 'a" where
  "index xs i =
     (if - int (length xs) \<le> i \<and> i < int (length xs) then Inr (at xs i) else Inl IndexError)"

text \<open>The variables the first loop of \<open>get_insc_dict\<close> sets. An index that is
  \<open>np.nan\<close> in the source is \<open>None\<close>.\<close>

record slots =
  id_unknown :: bool
  s_edcs_id :: "string option"
  s_edcs_id_i :: "nat option"
  s_place :: string
  s_place_i :: "nat option"
  s_keywords :: string
  s_keywords_i :: "nat option"
  s_material :: string
  s_material_i :: "nat option"

definition slots0 :: slots where
  "slots0 = \<lparr>id_unknown = True, s_edcs_id = None, s_edcs_id_i = None,
     s_place = ''n/a'', s_place_i = None, s_keywords = ''n/a'', s_keywords_i = None,
     s_material = ''n/a'', s_material_i = None\<rparr>"

text \<open>The inner loop over the parts of a fragment that has a semicolon.\<close>

fun classify_parts :: "string list \<Rightarrow> nat \<Rightarrow> string list \<Rightarrow> slots \<Rightarrow> slots" where
  "classify_parts elements i [] s = s"
| "classify_parts elements i (elem # elems) s =
     classify_parts elements i elems
       (if elem \<in> set keyword_list
        then s\<lparr>s_keywords := join '', '' elements, s_keywords_i := Some i\<rparr>
        else if elem \<in> set material_list
        then s\<lparr>s_material := join '', '' elements, s_material_i := Some i\<rparr>
        else s)"

text \<open>The body of the first loop, for the fragment \<open>f = insc[i]\<close>.\<close>

definition classify :: "slots \<Rightarrow> nat \<times> string \<Rightarrow> slots" where
  "classify s p = (case p of (i, f) \<Rightarrow>
     if id_unknown s \<and> take 5 f = ''EDCS-''
     then s\<lparr>s_edcs_id := Some f, s_edcs_id_i := Some i, id_unknown := False\<rparr>
     else if take 4 f = ''<!--'' then s\<lparr>s_place := f, s_place_i := Some i\<rparr>
     else if f \<in> set keyword_list then s\<lparr>s_keywords := f, s_keywords_i := Some i\<rparr>
     else if f \<in> set material_list then s\<lparr>s_material := f, s_material_i := Some i\<rparr>
     else if CHR '';'' \<in> set f
     then (let elements = split_on (\<lambda>c. c = CHR '';'') f in classify_parts elements i elements s)
     else s)"

definition scan_insc :: "string list \<Rightarrow> slots" where
  "scan_insc insc = foldl classify slots0 (enumerate 0 insc)"

text \<open>\<open>list(dict.fromkeys(nums))\<close>: the first occurrence of every element, in order.\<close>

fun fromkeys :: "'a list \<Rightarrow> 'a list \<Rightarrow> 'a list" where
  "fromkeys seen [] = []"
| "fromkeys seen (x # xs) = (if x \<in> set seen then fromkeys seen xs else x # fromkeys (x # seen) xs)"

text \<open>The loop \<open>for n in numbers\<close>: the first part that is no integer sets \<open>error\<close>
  and breaks.\<close>

fun parse_parts :: "string list \<Rightarrow> int list \<times> bool \<Rightarrow> int list \<times> bool" where
  "parse_parts [] (dates, error) = (dates, error)"
| "parse_parts (n # ns) (dates, error) =
     (case py_int n of
        Some v \<Rightarrow> parse_parts ns (dates @ [v], error)
      | None \<Rightarrow> (dates, True))"

text \<open>The loop \<open>for number in nums\<close>. \<open>re.split\<close> on a \<open>str\<close> raises no
  \<open>TypeError\<close>, so the outer handler never runs.\<close>

fun parse_nums :: "string list \<Rightarrow> int list \<times> bool \<Rightarrow> int list \<times> bool" where
  "parse_nums [] (dates, error) = (dates, error)"
| "parse_nums (number # nums) (dates, error) =
     (case py_int number of
        Some v \<Rightarrow> parse_nums nums (dates @ [v], error)
      | None \<Rightarrow>
          parse_nums nums
            (parse_parts (split_on (\<lambda>c. c = CHR '','' \<or> c = CHR '';'' \<or> c = CHR '':'') number)
               (dates, error)))"

text \<open>The tokens of \<open>insc[1 .. k)\<close> with a numeric character: the source appends the
  stripped token once for every numeric character in it.\<close>

definition date_tokens :: "string list \<Rightarrow> nat \<Rightarrow> string list" where
  "date_tokens insc k =
     concat (map (\<lambda>j. let elem = strip (insc ! j) in
                        replicate (length (filter isnumeric elem)) elem) [1..<k])"

text \<open>Publication and dates from the position \<open>edcs_id_i\<close> of the identifier: the
  publication, \<open>time_from\<close> and \<open>time_to\<close> (\<open>None\<close> is \<open>np.nan\<close>). In the last
  rule the source assigns the minimum and the maximum to \<open>date_from\<close> and \<open>date_to\<close>,
  two variables it never reads; \<open>min\<close> of an empty list raises \<open>ValueError\<close>.\<close>

definition get_dates :: "string list \<Rightarrow> nat \<Rightarrow> error + (string \<times> int option \<times> int option)" where
  "get_dates insc edcs_id_i =
     (if edcs_id_i = 1 then Inr (insc ! 0, None, None)
      else if edcs_id_i = 3 then
        Inr (insc ! 0,
             py_int (join '' '' (split_ws (insc ! 1))),
             py_int (join '' '' (split_ws (insc ! 2))))
      else if edcs_id_i \<ge> 5 \<and> edcs_id_i mod 2 = 1 then
        (let nums = fromkeys [] (date_tokens insc edcs_id_i);
             (dates, error) = parse_nums nums ([], False)
         in if error then Inr (''error'', None, None)
            else if dates = [] then Inl ValueError
            else (let date_from = Min (set dates); date_to = Max (set dates)
                  in Inr (insc ! 0, None, None)))
      else Inr (''error'', None, None))"

text \<open>The index of the text fragment.\<close>

definition get_text_i :: "slots \<Rightarrow> int" where
  "get_text_i s =
     (case s_keywords_i s of
        Some k \<Rightarrow> int k - 1
      | None \<Rightarrow>
          (case s_material_i s of
             Some m \<Rightarrow> int m - 1
           | None \<Rightarrow>
               (case s_place_i s of
                  Some p \<Rightarrow> int p + 2
                | None \<Rightarrow> - 1)))"

text \<open>The loop that resets a findspot which also stands at another position.\<close>

fun double_check :: "(nat \<times> string) list \<Rightarrow> int option \<Rightarrow> string \<Rightarrow> string" where
  "double_check [] findspot_i findspot = findspot"
| "double_check ((idx, elem) # rest) findspot_i findspot =
     double_check rest findspot_i
       (if elem = findspot then (if Some (int idx) \<noteq> findspot_i then ''n/a'' else findspot)
        else findspot)"

text \<open>The record of one inscription (\<open>insc_text\<close> and \<open>insc_keywords\<close>
  are its keys \<open>"text"\<close> and \<open>"keywords"\<close>).
  \<open>findspot\<close> is \<open>None\<close> where \<open>get_findspot\<close> returns Python's \<open>None\<close>.\<close>

record inscription =
  publication :: string
  edcs_id :: string
  time_from :: "int option"
  time_to :: "int option"
  province :: string
  findspot :: "string option"
  find_lat :: coord
  find_long :: coord
  insc_text :: string
  cleantext :: string
  insc_keywords :: string
  material :: string
  dump :: "string list"

text \<open>The findspot, its coordinates and the province.\<close>

definition get_place :: "string list \<Rightarrow> slots \<Rightarrow> int \<Rightarrow> error + (string option \<times> coord \<times> coord \<times> string)" where
  "get_place insc s text_i =
     (if contains (s_place s) ''<!--'' then
        Inr (get_findspot (s_place s), get_lat (s_place s), get_long (s_place s),
             get_province (s_place s))
      else
        (let province' = search_province insc in
         if length insc > 1 then
           (case index insc (text_i - 1) of
              Inl e \<Rightarrow> Inl e
            | Inr f \<Rightarrow> Inr (Some (double_check (enumerate 0 insc) (Some (text_i - 1)) f),
                            NaN, NaN, province'))
         else Inr (Some (double_check (enumerate 0 insc) None ''n/a''), NaN, NaN, province')))"

text \<open>The body of the loop of \<open>get_insc_dict\<close> for one inscription: an exception, no
  record (\<open>continue\<close>), or the record.\<close>

definition extract_insc :: "string list \<Rightarrow> error + inscription option" where
  "extract_insc insc =
     (let s = scan_insc insc in
      case s_edcs_id s of
        None \<Rightarrow> Inr None
      | Some edcs_id' \<Rightarrow>
          (case get_dates insc (the (s_edcs_id_i s)) of
             Inl e \<Rightarrow> Inl e
           | Inr (publication', time_from', time_to') \<Rightarrow>
               (let text_i = get_text_i s in
                case index insc text_i of
                  Inl e \<Rightarrow> Inl e
                | Inr text \<Rightarrow>
                    (let cleantext' = (if text \<noteq> ''n/a'' then get_cleantext text else ''n/a'') in
                     case get_place insc s text_i of
                       Inl e \<Rightarrow> Inl e
                     | Inr (findspot0, find_lat', find_long', province') \<Rightarrow>
                         (let findspot' =
                            (if findspot0 = Some ''?'' \<or> findspot0 = Some []
                             then Some ''n/a'' else findspot0)
                          in if s_place s = ''n/a'' \<and> s_keywords s = ''n/a'' \<and>
                                s_material s = ''n/a'' \<and> findspot' = Some ''n/a'' \<and>
                                province' = ''n/a'' \<and> time_from' = None \<and> time_to' = None
                             then Inr None
                             else Inr (Some
                               \<lparr>publication = publication', edcs_id = edcs_id',
                                time_from = time_from', time_to = time_to',
                                province = province', findspot = findspot',
                                find_lat = find_lat', find_long = find_long',
                                insc_text = text, cleantext = cleantext',
                                insc_keywords = s_keywords s, material = s_material s,
                                dump = insc\<rparr>))))))"

text \<open>\<open>get_insc_dict\<close>: the records under the keys 0, 1, ... in the order of the input;
  an exception ends the run.\<close>

fun get_insc_dict_loop :: "string list list \<Rightarrow> (nat \<times> inscription) list \<Rightarrow> nat
    \<Rightarrow> error + (nat \<times> inscription) list" where
  "get_insc_dict_loop [] all_inscriptions counter = Inr all_inscriptions"
| "get_insc_dict_loop (insc # inscriptions) all_inscriptions counter =
     (case extract_insc insc of
        Inl e \<Rightarrow> Inl e
      | Inr None \<Rightarrow> get_insc_dict_loop inscriptions all_inscriptions counter
      | Inr (Some r) \<Rightarrow>
          get_insc_dict_loop inscriptions (all_inscriptions @ [(counter, r)]) (Suc counter))"

definition get_insc_dict :: "string list list \<Rightarrow> error + (nat \<times> inscription) list" where
  "get_insc_dict inscriptions = get_insc_dict_loop inscriptions [] 0"

text \<open>An invariant of the first loop on a list without a findspot comment: the
  positions of the keywords and of the material are below \<open>N\<close>, and no comment was
  found.\<close>

definition slots_below :: "nat \<Rightarrow> slots \<Rightarrow> bool" where
  "slots_below N s =
     ((case s_keywords_i s of None \<Rightarrow> True | Some k \<Rightarrow> k < N) \<and>
      (case s_material_i s of None \<Rightarrow> True | Some m \<Rightarrow> m < N) \<and>
      s_place_i s = None)"

section \<open>The toponym generator (Find\_Migrants.py)\<close>

definition vowels :: string where
  "vowels = ''aeiou''"

text \<open>The slice \<open>s[:i]\<close>; a negative \<open>i\<close> counts from the end, and a slice never raises.\<close>

definition slice_to :: "string \<Rightarrow> int \<Rightarrow> string" where
  "slice_to s i = (if i < 0 then take (nat (int (length s) + i)) s else take (nat i) s)"

text \<open>The loop \<open>while location[i - 1] in vowels\<close>. The index \<open>i - 1\<close> goes below zero
  when every letter before the first stem is a vowel; from there it counts from the end,
  and raises \<open>IndexError\<close> below \<open>-len(location)\<close>.\<close>

function more_vowels :: "string \<Rightarrow> int \<Rightarrow> string list \<Rightarrow> error + string list" where
  "more_vowels location i toponym_list =
     (case index location (i - 1) of
        Inl e \<Rightarrow> Inl e
      | Inr c \<Rightarrow>
          if c \<in> set vowels
          then more_vowels location (i - 1) (toponym_list @ [slice_to location (i - 1) @ ''ensis''])
          else Inr toponym_list)"
  by pat_completeness auto
termination
  by (relation "measure (\<lambda>(location, i, toponym_list). nat (i + int (length location)))")
    (auto simp: index_def split: if_splits)

text \<open>The loop over \<open>enumerate(reversed(location))\<close>, up to its \<open>break\<close> at the first
  vowel.\<close>

fun first_vowel :: "(nat \<times> char) list \<Rightarrow> string \<Rightarrow> string list \<Rightarrow> error + string list" where
  "first_vowel [] location toponym_list = Inr toponym_list"
| "first_vowel ((idx, letter) # rest) location toponym_list =
     (if letter \<in> set vowels then
        (let i = int (length location) - int idx - 1 in
         if i \<le> 2 then Inr toponym_list
         else more_vowels location i (toponym_list @ [slice_to location i @ ''ensis'']))
      else first_vowel rest location toponym_list)"

text \<open>The loop over the words of one place name.\<close>

fun locations_loop :: "string list \<Rightarrow> string list \<Rightarrow> error + string list" where
  "locations_loop [] toponym_list = Inr toponym_list"
| "locations_loop (location # locations) toponym_list =
     (case first_vowel (enumerate 0 (rev location)) location toponym_list of
        Inl e \<Rightarrow> Inl e
      | Inr toponym_list' \<Rightarrow> locations_loop locations toponym_list')"

text \<open>The candidates of one cell of the column \<open>placenames\<close>, and the cell of the
  column \<open>toponyms\<close> made of them.\<close>

definition toponym_list_of :: "string \<Rightarrow> error + string list" where
  "toponym_list_of elem = locations_loop (split_ws elem) []"

definition toponyms_of :: "string \<Rightarrow> error + string" where
  "toponyms_of elem =
     (case toponym_list_of elem of Inl e \<Rightarrow> Inl e | Inr l \<Rightarrow> Inr (join '', '' l))"

text \<open>\<open>get_toponyms\<close> on the column \<open>placenames\<close>: a cell that is \<open>None\<close> stays
  \<open>None\<close>.\<close>

fun get_toponyms :: "string option list \<Rightarrow> error + string option list" where
  "get_toponyms [] = Inr []"
| "get_toponyms (None # rest) =
     (case get_toponyms rest of Inl e \<Rightarrow> Inl e | Inr ts \<Rightarrow> Inr (None # ts))"
| "get_toponyms (Some elem # rest) =
     (case toponyms_of elem of
        Inl e \<Rightarrow> Inl e
      | Inr t \<Rightarrow> (case get_toponyms rest of Inl e \<Rightarrow> Inl e | Inr ts \<Rightarrow> Inr (Some t # ts)))"

section \<open>The provenance matcher (Find\_Migrants.py)\<close>

text \<open>A row of the inscriptions: identifier and clean text (\<open>None\<close> where the cell is
  no string); the other columns are copied along and are \<open>e_rest\<close>.\<close>

record 'a edcs_row =
  e_id :: string
  e_cleantext :: "string option"
  e_rest :: 'a

text \<open>A row of the places. \<open>toponyms\<close> is \<open>None\<close> where the cell is no string.\<close>

record place =
  title :: string
  reprLat :: string
  reprLong :: string
  reprLatLong :: string
  path :: string
  pid :: string
  toponyms :: "string option"

text \<open>A row of the migrants: the row of the inscription and the columns added to it.\<close>

record 'a migrant_row =
  source :: "'a edcs_row"
  origo :: string
  origo_lat :: string
  origo_long :: string
  origo_LatLong :: string
  m_path :: string
  m_pid :: string
  m_migrant :: nat

definition new_migrant :: "'a edcs_row \<Rightarrow> place \<Rightarrow> 'a migrant_row" where
  "new_migrant e p =
     \<lparr>source = e, origo = title p, origo_lat = reprLat p, origo_long = reprLong p,
      origo_LatLong = reprLatLong p, m_path = path p, m_pid = pid p, m_migrant = 1\<rparr>"

text \<open>The loop over the inscriptions for one candidate.\<close>

definition matches_of :: "'a edcs_row list \<Rightarrow> place \<Rightarrow> string \<Rightarrow> 'a migrant_row list" where
  "matches_of edcs p top' =
     concat (map (\<lambda>e. case e_cleantext e of
                         None \<Rightarrow> []
                       | Some t \<Rightarrow> if contains t top' then [new_migrant e p] else []) edcs)"

text \<open>The body of the loop over the places: the guard on the cell, then the loop over
  its candidates.\<close>

definition place_matches :: "'a edcs_row list \<Rightarrow> place \<Rightarrow> 'a migrant_row list" where
  "place_matches edcs p =
     (case toponyms p of
        None \<Rightarrow> []
      | Some tops \<Rightarrow>
          if length tops < 6 then []
          else concat (map (matches_of edcs p)
                 (map strip (split_on (\<lambda>c. c = CHR '','') tops))))"

text \<open>\<open>drop_duplicates(subset=['edcs-id', 'origo_LatLong'])\<close>: the first row of every
  pair stays.\<close>

fun drop_duplicates :: "(string \<times> string) list \<Rightarrow> 'a migrant_row list \<Rightarrow> 'a migrant_row list" where
  "drop_duplicates seen [] = []"
| "drop_duplicates seen (m # ms) =
     (let k = (e_id (source m), origo_LatLong m) in
      if k \<in> set seen then drop_duplicates seen ms else m # drop_duplicates (k # seen) ms)"

definition search_toponyms :: "'a edcs_row list \<Rightarrow> place list \<Rightarrow> 'a migrant_row list" where
  "search_toponyms edcs places = drop_duplicates [] (concat (map (place_matches edcs) places))"

section \<open>The duplicate resolver (Analyse\_Inscriptions.py)\<close>

text \<open>A row of the frame: its index label, and the columns \<open>Index\<close>, \<open>edcs-id\<close>,
  \<open>migrant\<close> (whether the cell is 1) and \<open>distance\<close>. The distances are
  numbers: only their order and equality are used, and they are modelled as integers;
  a distance that is NaN is outside the model.\<close>

record row =
  label :: int
  Index :: int
  r_edcs_id :: string
  migrant :: bool
  distance :: int

text \<open>The column \<open>ignore\<close>, by position: the label of the row and the value. Writing
  \<open>edcs.at[i, 'ignore'] = 1\<close> sets the rows with the label \<open>i\<close>; when there is none,
  pandas appends a row with that label whose other cells are NaN.\<close>

type_synonym ignore_column = "(int \<times> nat) list"

definition at_set :: "ignore_column \<Rightarrow> int \<Rightarrow> ignore_column" where
  "at_set ign i =
     (if i \<in> set (map fst ign) then map (\<lambda>(l, v). if l = i then (l, 1) else (l, v)) ign
      else ign @ [(i, 1)])"

text \<open>\<open>edcs[col].iloc[p]\<close> on a frame of \<open>len\<close> rows, the first of which are
  \<open>rows\<close>: the row at the position, \<open>None\<close> for an appended row of NaN, or
  \<open>IndexError\<close> out of the range \<open>-len \<le> p < len\<close>.\<close>

definition iloc :: "row list \<Rightarrow> nat \<Rightarrow> int \<Rightarrow> error + row option" where
  "iloc rows len p =
     (if p < - int len \<or> int len \<le> p then Inl IndexError
      else (let q = nat (if p < 0 then p + int len else p)
            in Inr (if q < length rows then Some (rows ! q) else None)))"

text \<open>The loop \<open>while elem['edcs-id'] == edcs['edcs-id'].iloc[idx - i]\<close>, at the
  position \<open>p = idx - i\<close>, with the lists \<open>indexes\<close> and \<open>distances\<close>.\<close>

function backward :: "row list \<Rightarrow> nat \<Rightarrow> string \<Rightarrow> int \<Rightarrow> int list \<times> int list
    \<Rightarrow> error + (int list \<times> int list)" where
  "backward rows len ident p (indexes, distances) =
     (case iloc rows len p of
        Inl e \<Rightarrow> Inl e
      | Inr None \<Rightarrow> Inr (indexes, distances)
      | Inr (Some r) \<Rightarrow>
          if ident = r_edcs_id r
          then backward rows len ident (p - 1) (indexes @ [Index r], distances @ [distance r])
          else Inr (indexes, distances))"
  by pat_completeness auto
termination
  by (relation "measure (\<lambda>(rows, len, ident, p, acc). nat (p + int len + 1))")
    (auto simp: iloc_def split: if_splits)

text \<open>The loop \<open>while elem['edcs-id'] == edcs['edcs-id'].iloc[idx + j]\<close>, at the
  position \<open>p = idx + j\<close>.\<close>

function forward :: "row list \<Rightarrow> nat \<Rightarrow> string \<Rightarrow> int \<Rightarrow> int list \<times> int list
    \<Rightarrow> error + (int list \<times> int list)" where
  "forward rows len ident p (indexes, distances) =
     (case iloc rows len p of
        Inl e \<Rightarrow> Inl e
      | Inr None \<Rightarrow> Inr (indexes, distances)
      | Inr (Some r) \<Rightarrow>
          if ident = r_edcs_id r
          then forward rows len ident (p + 1) (indexes @ [Index r], distances @ [distance r])
          else Inr (indexes, distances))"
  by pat_completeness auto
termination
  by (relation "measure (\<lambda>(rows, len, ident, p, acc). nat (int len - p))")
    (auto simp: iloc_def split: if_splits)

text \<open>\<open>distances.index(shortest)\<close> for an element of the list.\<close>

fun list_index :: "int list \<Rightarrow> int \<Rightarrow> nat" where
  "list_index [] v = 0"
| "list_index (x # xs) v = (if x = v then 0 else Suc (list_index xs v))"

text \<open>The loop \<open>for i, v in enumerate(indexes)\<close>: it writes at the label \<open>i\<close>, the
  position in the list, not at \<open>v\<close>.\<close>

fun mark :: "(nat \<times> int) list \<Rightarrow> nat \<Rightarrow> ignore_column \<Rightarrow> ignore_column" where
  "mark [] idx ign = ign"
| "mark ((i, v) # rest) idx ign = mark rest idx (if i \<noteq> idx then at_set ign (int i) else ign)"

text \<open>The body of the loop over the rows, for the row \<open>elem\<close>, whose label is \<open>idx\<close>.\<close>

definition visit :: "row list \<Rightarrow> row \<Rightarrow> ignore_column \<Rightarrow> error + ignore_column" where
  "visit rows elem ign =
     (if migrant elem then
        (case backward rows (length ign) (r_edcs_id elem) (label elem - 1)
                ([Index elem], [distance elem]) of
           Inl e \<Rightarrow> Inl e
         | Inr acc \<Rightarrow>
             (case forward rows (length ign) (r_edcs_id elem) (label elem + 1) acc of
                Inl e \<Rightarrow> Inl e
              | Inr (indexes, distances) \<Rightarrow>
                  if length indexes > 1 then
                    (let shortest = Min (set distances);
                         idx = list_index distances shortest
                     in Inr (mark (enumerate 0 indexes) idx ign))
                  else Inr ign))
      else Inr ign)"

fun iterrows :: "row list \<Rightarrow> row list \<Rightarrow> ignore_column \<Rightarrow> error + ignore_column" where
  "iterrows rows [] ign = Inr ign"
| "iterrows rows (elem # rest) ign =
     (case visit rows elem ign of Inl e \<Rightarrow> Inl e | Inr ign' \<Rightarrow> iterrows rows rest ign')"

text \<open>\<open>edcs.sort_values(by='edcs-id')\<close>. The default sort of pandas is the quicksort
  of numpy: a frame of up to 16 rows is sorted by insertion, which keeps the rows with
  one identifier in their order; on a longer frame the order of such rows is the
  library's, and \<open>quicksort\<close> stands for it.\<close>

definition sort_values :: "(row list \<Rightarrow> row list) \<Rightarrow> row list \<Rightarrow> row list" where
  "sort_values quicksort edcs =
     (if length edcs \<le> 16 then sort_key r_edcs_id edcs else quicksort edcs)"

text \<open>\<open>ignore_duplicates\<close>: the sorted rows and the column \<open>ignore\<close>, or the
  exception raised.\<close>

definition ignore_duplicates :: "(row list \<Rightarrow> row list) \<Rightarrow> row list
    \<Rightarrow> error + (row list \<times> ignore_column)" where
  "ignore_duplicates quicksort edcs =
     (let rows = sort_values quicksort edcs in
      case iterrows rows rows (map (\<lambda>r. (label r, 0)) rows) of
        Inl e \<Rightarrow> Inl e
      | Inr ign \<Rightarrow> Inr (rows, ign))"

section \<open>Properties\<close>

lemma coord_loop_all:
  "list_all (\<lambda>c. isnumeric c \<or> c = CHR ''.'' \<or> c = CHR ''-'') cs \<Longrightarrow> coord_loop cs r = PyNone"
  by (induction cs arbitrary: r) auto

text \<open>
  C9. When the input contains the tag \<open>latitude=\<close> and every character after the first
  occurrence of the tag is numeric, a full stop or a minus sign, \<open>get_lat\<close> returns
  \<open>None\<close>: neither a float nor the NaN of a missing tag. The same holds for
  \<open>get_long\<close> and the tag \<open>longitude=\<close>.
\<close>

theorem get_lat_long_none:
  "(contains place ''latitude='' \<and>
    list_all (\<lambda>c. isnumeric c \<or> c = CHR ''.'' \<or> c = CHR ''-'')
      (drop (nat (py_find place ''latitude='' 0 + 9)) place)
    \<longrightarrow> get_lat place = PyNone) \<and>
   (contains place ''longitude='' \<and>
    list_all (\<lambda>c. isnumeric c \<or> c = CHR ''.'' \<or> c = CHR ''-'')
      (drop (nat (py_find place ''longitude='' 0 + 10)) place)
    \<longrightarrow> get_long place = PyNone)"
  by (simp add: get_lat_def get_long_def contains_def coord_loop_all)

theorem get_lat_long_none_witness:
  "contains ''<!-- latitude=41.9'' ''latitude='' \<and>
   get_lat ''<!-- latitude=41.9'' = PyNone \<and>
   contains ''longitude=-12.5'' ''longitude='' \<and>
   get_long ''longitude=-12.5'' = PyNone"
proof -
  have a: "contains ''<!-- latitude=41.9'' ''latitude=''"
    by (simp add: contains_def py_find_def startswith_def)
  have b: "list_all (\<lambda>c. isnumeric c \<or> c = CHR ''.'' \<or> c = CHR ''-'')
      (drop (nat (py_find ''<!-- latitude=41.9'' ''latitude='' 0 + 9)) ''<!-- latitude=41.9'')"
    by (simp add: py_find_def startswith_def isnumeric_def isdigit_def)
  have c: "contains ''longitude=-12.5'' ''longitude=''"
    by (simp add: contains_def py_find_def startswith_def)
  have d: "list_all (\<lambda>c. isnumeric c \<or> c = CHR ''.'' \<or> c = CHR ''-'')
      (drop (nat (py_find ''longitude=-12.5'' ''longitude='' 0 + 10)) ''longitude=-12.5'')"
    by (simp add: py_find_def startswith_def isnumeric_def isdigit_def)
  from a b c d get_lat_long_none [of "''<!-- latitude=41.9''"]
    get_lat_long_none [of "''longitude=-12.5''"]
  show ?thesis by blast
qed

text \<open>
  C3. The claim: the markup normalizer is idempotent on every string without unresolved
  markers. The string \<open>ab[3]c\<close> has letters and one well-formed placeholder for missing
  letters, and no correction or superficial-letter marker. Its clean text is \<open>ab[3c\<close>:
  the guard \<open>i < len(text) - 2\<close> of \<open>missing\<close> refuses the closing bracket at the
  last but one position. Cleaning once more drops the rest of the placeholder.
\<close>

theorem get_cleantext_twice:
  "get_cleantext ''ab[3]c'' = ''ab[3c'' \<and>
   get_cleantext (get_cleantext ''ab[3]c'') = ''abc''"
  by code_simp

text \<open>
  C7. The claim: an opening correction marker with no closing marker after it is
  resolved as a span that runs to the end of the string. In \<open>ab<cd=ef\<close> the search for
  \<open>>\<close> gives \<open>-1\<close>, the copy of the rest starts again at position 0, and
  \<open>correct_text\<close> returns the text before the marker, the corrected reading and then
  the whole input once more.
\<close>

theorem correct_text_unmatched:
  "correct_text ''ab<cd=ef'' = ''abcdab<cd=ef'' \<and>
   get_cleantext ''ab<cd=ef'' = ''abcdabcdef''"
  by code_simp


text \<open>
  The first loop of \<open>get_insc_dict\<close> takes as identifier the first fragment that
  begins with \<open>EDCS-\<close>: \<open>edcs_id_i\<close> is its position.
\<close>

lemma classify_parts_id:
  "id_unknown (classify_parts els i es s) = id_unknown s \<and>
   s_edcs_id_i (classify_parts els i es s) = s_edcs_id_i s \<and>
   s_edcs_id (classify_parts els i es s) = s_edcs_id s"
  by (induction es arbitrary: s) auto

lemma classify_known:
  "\<not> id_unknown s \<Longrightarrow> \<not> id_unknown (classify s p) \<and>
   s_edcs_id_i (classify s p) = s_edcs_id_i s \<and> s_edcs_id (classify s p) = s_edcs_id s"
  by (cases p) (simp add: classify_def Let_def classify_parts_id)

lemma foldl_classify_known:
  "\<not> id_unknown s \<Longrightarrow> s_edcs_id_i (foldl classify s ps) = s_edcs_id_i s \<and>
   s_edcs_id (foldl classify s ps) = s_edcs_id s"
proof (induction ps arbitrary: s)
  case Nil
  then show ?case by simp
next
  case (Cons p ps)
  from classify_known [OF Cons.prems, of p] Cons.IH [of "classify s p"]
  show ?case by simp
qed

lemma classify_other:
  "take 5 f \<noteq> ''EDCS-'' \<Longrightarrow>
   id_unknown (classify s (i, f)) = id_unknown s \<and>
   s_edcs_id_i (classify s (i, f)) = s_edcs_id_i s"
  by (simp add: classify_def Let_def classify_parts_id)

lemma classify_hit:
  "id_unknown s \<Longrightarrow> take 5 f = ''EDCS-'' \<Longrightarrow>
   \<not> id_unknown (classify s (i, f)) \<and> s_edcs_id_i (classify s (i, f)) = Some i \<and>
   s_edcs_id (classify s (i, f)) = Some f"
  by (simp add: classify_def)

lemma scan_first:
  "id_unknown s \<Longrightarrow> k < length xs \<Longrightarrow> take 5 (xs ! k) = ''EDCS-'' \<Longrightarrow>
   \<forall>j<k. take 5 (xs ! j) \<noteq> ''EDCS-'' \<Longrightarrow>
   s_edcs_id_i (foldl classify s (enumerate n xs)) = Some (n + k) \<and>
   s_edcs_id (foldl classify s (enumerate n xs)) = Some (xs ! k)"
proof (induction xs arbitrary: s n k)
  case Nil
  then show ?case by simp
next
  case (Cons x xs)
  show ?case
  proof (cases k)
    case 0
    with Cons.prems have h: "\<not> id_unknown (classify s (n, x)) \<and>
        s_edcs_id_i (classify s (n, x)) = Some n \<and> s_edcs_id (classify s (n, x)) = Some x"
      using classify_hit [of s x n] by simp
    with foldl_classify_known [of "classify s (n, x)" "enumerate (Suc n) xs"] 0
    show ?thesis by simp
  next
    case (Suc k')
    with Cons.prems have x: "take 5 x \<noteq> ''EDCS-''"
      by auto
    from Suc Cons.prems have rest: "k' < length xs" "take 5 (xs ! k') = ''EDCS-''"
      "\<forall>j<k'. take 5 (xs ! j) \<noteq> ''EDCS-''"
      by auto
    from x Cons.prems(1) have "id_unknown (classify s (n, x))"
      using classify_other [of x s n] by simp
    from Cons.IH [OF this rest, of "Suc n"] Suc show ?thesis
      by simp
  qed
qed

lemma scan_insc_id_position:
  "k < length insc \<Longrightarrow> take 5 (insc ! k) = ''EDCS-'' \<Longrightarrow>
   \<forall>j<k. take 5 (insc ! j) \<noteq> ''EDCS-'' \<Longrightarrow>
   s_edcs_id_i (scan_insc insc) = Some k \<and> s_edcs_id (scan_insc insc) = Some (insc ! k)"
  using scan_first [of slots0 k insc 0] by (simp add: scan_insc_def slots0_def)




text \<open>
  On a list without a findspot comment the index of the text fragment is within the
  list.
\<close>

lemma classify_parts_below:
  "slots_below N s \<Longrightarrow> i < N \<Longrightarrow> slots_below N (classify_parts els i es s)"
  by (induction es arbitrary: s) (auto simp: slots_below_def)

lemma classify_below:
  "slots_below N s \<Longrightarrow> i < N \<Longrightarrow> take 4 f \<noteq> ''<!--'' \<Longrightarrow> slots_below N (classify s (i, f))"
  by (auto simp: classify_def Let_def classify_parts_below) (auto simp: slots_below_def)

lemma foldl_classify_below:
  "slots_below N s \<Longrightarrow> n + length xs \<le> N \<Longrightarrow> \<forall>f \<in> set xs. take 4 f \<noteq> ''<!--'' \<Longrightarrow>
   slots_below N (foldl classify s (enumerate n xs))"
proof (induction xs arbitrary: s n)
  case Nil
  then show ?case by simp
next
  case (Cons x xs)
  from Cons.prems have "slots_below N (classify s (n, x))"
    by (intro classify_below) auto
  from Cons.IH [OF this, of "Suc n"] Cons.prems show ?case
    by simp
qed

lemma text_i_no_comment:
  "insc \<noteq> [] \<Longrightarrow> \<forall>f \<in> set insc. take 4 f \<noteq> ''<!--'' \<Longrightarrow>
   get_text_i (scan_insc insc) < int (length insc)"
proof -
  assume a: "insc \<noteq> []" "\<forall>f \<in> set insc. take 4 f \<noteq> ''<!--''"
  have "slots_below (length insc) slots0"
    by (simp add: slots_below_def slots0_def)
  from foldl_classify_below [OF this, of 0 insc] a have "slots_below (length insc) (scan_insc insc)"
    by (simp add: scan_insc_def)
  with a(1) show ?thesis
    by (auto simp: slots_below_def get_text_i_def split: option.splits)
qed

lemma digits_ok_limit: "digits_ok s \<Longrightarrow> length (filter (\<lambda>c. c \<noteq> CHR ''_'') s) \<le> 4300"
  by (simp add: digits_ok_def Let_def)



text \<open>
  C10. When no fragment is a province name and some fragment has a \<open>|\<close> and a part
  that is a province name once stripped, \<open>search_province\<close> returns the first such
  fragment, whole: it is an element of the input that has the separator, not a province
  name.
\<close>

theorem search_province_whole_fragment:
  "\<forall>e \<in> set insc. e \<notin> set province_list \<Longrightarrow> \<exists>e \<in> set insc. part_matches e \<Longrightarrow>
   \<exists>pre e post. insc = pre @ e # post \<and> (\<forall>x \<in> set pre. \<not> part_matches x) \<and>
     part_matches e \<and> search_province insc = e \<and> search_province insc \<notin> set province_list"
proof (induction insc)
  case Nil
  then show ?case by simp
next
  case (Cons a insc)
  show ?case
  proof (cases "part_matches a")
    case True
    with Cons.prems have "search_province (a # insc) = a \<and> a \<notin> set province_list"
      by simp
    with True show ?thesis
      by (intro exI [of _ "[]"] exI [of _ a] exI [of _ insc]) simp
  next
    case False
    with Cons.prems
    have "\<forall>e \<in> set insc. e \<notin> set province_list" and "\<exists>e \<in> set insc. part_matches e"
      by auto
    from Cons.IH [OF this] obtain pre e post where
      h: "insc = pre @ e # post" "\<forall>x \<in> set pre. \<not> part_matches x" "part_matches e"
         "search_province insc = e" "search_province insc \<notin> set province_list"
      by blast
    from False Cons.prems h have "search_province (a # insc) = e"
      by simp
    with h False show ?thesis
      by (intro exI [of _ "a # pre"] exI [of _ e] exI [of _ post]) simp
  qed
qed

theorem search_province_whole_fragment_witness:
  "list_all (\<lambda>e. e \<notin> set province_list) [''CIL 06, 00001'', ''Roma | Italia'', ''viri''] \<and>
   list_ex part_matches [''CIL 06, 00001'', ''Roma | Italia'', ''viri''] \<and>
   part_matches (search_province [''CIL 06, 00001'', ''Roma | Italia'', ''viri'']) \<and>
   search_province [''CIL 06, 00001'', ''Roma | Italia'', ''viri''] \<notin> set province_list"
proof -
  let ?X = "[''CIL 06, 00001'', ''Roma | Italia'', ''viri'']"
  have a: "list_all (\<lambda>e. e \<notin> set province_list) ?X"
    by code_simp
  have b: "list_ex part_matches ?X"
    by code_simp
  from a have a': "\<forall>e \<in> set ?X. e \<notin> set province_list"
    by (simp only: list_all_iff)
  from b have b': "\<exists>e \<in> set ?X. part_matches e"
    by (simp only: list_ex_iff)
  from search_province_whole_fragment [OF a' b'] have
    "part_matches (search_province ?X) \<and> search_province ?X \<notin> set province_list"
    by metis
  with a b show ?thesis
    by blast
qed

text \<open>
  C1. The claim: in a group of rows with one identifier and a migrant among them, the
  rows that are not at the least distance are marked, and the row at the least distance
  is kept. On the three rows of the claim (identifier \<open>X\<close>, distances 50, 12, 30) the
  backward loop of the first row reads the positions \<open>-1\<close>, \<open>-2\<close>, \<open>-3\<close>, finds
  the same identifier at each, and raises \<open>IndexError\<close> at \<open>-4\<close>. With a row before
  and a row after the group the run ends, and the marks are written at the labels 0, 1
  and 2, the positions in the list \<open>indexes\<close>: the row outside the group and the row
  at distance 12 are marked, the row at distance 30 is not.
\<close>

theorem ignore_duplicates_example:
  "ignore_duplicates quicksort
     [\<lparr>label = 0, Index = 0, r_edcs_id = ''X'', migrant = True, distance = 50\<rparr>,
      \<lparr>label = 1, Index = 1, r_edcs_id = ''X'', migrant = True, distance = 12\<rparr>,
      \<lparr>label = 2, Index = 2, r_edcs_id = ''X'', migrant = True, distance = 30\<rparr>] = Inl IndexError \<and>
   map_sum id snd (ignore_duplicates quicksort
     [\<lparr>label = 0, Index = 0, r_edcs_id = ''W'', migrant = False, distance = 0\<rparr>,
      \<lparr>label = 1, Index = 1, r_edcs_id = ''X'', migrant = True, distance = 50\<rparr>,
      \<lparr>label = 2, Index = 2, r_edcs_id = ''X'', migrant = True, distance = 12\<rparr>,
      \<lparr>label = 3, Index = 3, r_edcs_id = ''X'', migrant = True, distance = 30\<rparr>,
      \<lparr>label = 4, Index = 4, r_edcs_id = ''Z'', migrant = False, distance = 0\<rparr>]) =
     Inr [(0, 1), (1, 1), (2, 1), (3, 0), (4, 0)]"
  by code_simp

text \<open>
  C2. The claim: with the identifier at an odd position from 5 on, \<open>time_from\<close> and
  \<open>time_to\<close> are the least and the greatest of the dates. The source assigns them to
  \<open>date_from\<close> and \<open>date_to\<close>, which it never reads: with the dates 120, 180, 150
  and 200 before the identifier at position 5, both fields of the record stay NaN.
\<close>

theorem extract_many_dates:
  "extract_insc [''PubX'', ''120'', ''180'', ''150'', ''200'', ''EDCS-000001'', ''someword'', ''viri''] =
     Inr (Some \<lparr>publication = ''PubX'', edcs_id = ''EDCS-000001'',
       time_from = None, time_to = None, province = ''n/a'',
       findspot = Some ''EDCS-000001'', find_lat = NaN, find_long = NaN,
       insc_text = ''someword'', cleantext = ''someword'', insc_keywords = ''viri'',
       material = ''n/a'',
       dump = [''PubX'', ''120'', ''180'', ''150'', ''200'', ''EDCS-000001'', ''someword'', ''viri'']\<rparr>)"
  by code_simp

text \<open>
  The same holds at every odd position from 5 on: no record has a date.
\<close>

lemma extract_many_dates_unset:
  "5 \<le> k \<Longrightarrow> odd k \<Longrightarrow> k < length insc \<Longrightarrow> take 5 (insc ! k) = ''EDCS-'' \<Longrightarrow>
   \<forall>j<k. take 5 (insc ! j) \<noteq> ''EDCS-'' \<Longrightarrow> extract_insc insc = Inr (Some r) \<Longrightarrow>
   time_from r = None \<and> time_to r = None"
proof -
  assume k: "5 \<le> k" "odd k" and a: "k < length insc" "take 5 (insc ! k) = ''EDCS-''"
    "\<forall>j<k. take 5 (insc ! j) \<noteq> ''EDCS-''" and r: "extract_insc insc = Inr (Some r)"
  from a have "s_edcs_id_i (scan_insc insc) = Some k"
    using scan_insc_id_position [of k insc] by simp
  with r k show ?thesis
    by (auto simp: extract_insc_def Let_def get_dates_def
      split: option.splits sum.splits prod.splits if_splits)
qed

text \<open>
  C6. The claim: when a date is no integer, the publication is \<open>error\<close>, at any
  position of the identifier. With the identifier at position 3 the source sets its flag
  \<open>error\<close> and never reads it: the publication stays fragment 0.
\<close>

theorem extract_bad_date_at_3:
  "extract_insc [''PubX'', ''12x'', ''180'', ''EDCS-000001'', ''someword'', ''viri''] =
     Inr (Some \<lparr>publication = ''PubX'', edcs_id = ''EDCS-000001'',
       time_from = None, time_to = Some 180, province = ''n/a'',
       findspot = Some ''EDCS-000001'', find_lat = NaN, find_long = NaN,
       insc_text = ''someword'', cleantext = ''someword'', insc_keywords = ''viri'',
       material = ''n/a'',
       dump = [''PubX'', ''12x'', ''180'', ''EDCS-000001'', ''someword'', ''viri'']\<rparr>)"
  by code_simp

text \<open>
  At position 3 every record keeps fragment 0 as its publication, whatever the dates
  are.
\<close>

lemma extract_at_3_publication:
  "3 < length insc \<Longrightarrow> take 5 (insc ! 3) = ''EDCS-'' \<Longrightarrow>
   \<forall>j<3. take 5 (insc ! j) \<noteq> ''EDCS-'' \<Longrightarrow> extract_insc insc = Inr (Some r) \<Longrightarrow>
   publication r = insc ! 0"
proof -
  assume a: "3 < length insc" "take 5 (insc ! 3) = ''EDCS-''"
    "\<forall>j<3. take 5 (insc ! j) \<noteq> ''EDCS-''" and r: "extract_insc insc = Inr (Some r)"
  from a have "s_edcs_id_i (scan_insc insc) = Some 3"
    using scan_insc_id_position [of 3 insc] by simp
  with r show ?thesis
    by (auto simp: extract_insc_def Let_def get_dates_def
      split: option.splits sum.splits prod.splits if_splits)
qed

text \<open>
  C5. The claim: every candidate has a stem of more than two letters. The test
  \<open>i <= 2\<close> of the source stands before the first candidate only; the loop over the
  vowels before it has none. For \<open>Baiae\<close> the stems are \<open>Baia\<close>, \<open>Bai\<close>,
  \<open>Ba\<close> and \<open>B\<close>.
\<close>

theorem toponyms_short_stems:
  "toponym_list_of ''Baiae'' = Inr [''Baiaensis'', ''Baiensis'', ''Baensis'', ''Bensis'']"
  by code_simp

text \<open>
  C4, as stated: a candidate shorter than 6 is never tested and gives no migrant row.
  The source tests the length of the cell, the candidates of one place joined by commas,
  not of a candidate: in the cell \<open>Narbensis, ensis\<close> the candidate \<open>ensis\<close>, of
  length 5, is tested and gives the migrant row (\<open>Narbensis\<close> is not in the text).
\<close>

theorem search_toponyms_short_candidate:
  "length ''ensis'' < 6 \<and> \<not> contains ''natus Narbonensis'' ''Narbensis'' \<and>
   search_toponyms [\<lparr>e_id = ''E1'', e_cleantext = Some ''natus Narbonensis'', e_rest = ()\<rparr>]
     [\<lparr>title = ''Narbo'', reprLat = ''43.18'', reprLong = ''3.0'', reprLatLong = ''43.18,3.0'',
       path = ''/p'', pid = ''P'', toponyms = Some ''Narbensis, ensis''\<rparr>] =
   [\<lparr>source = \<lparr>e_id = ''E1'', e_cleantext = Some ''natus Narbonensis'', e_rest = ()\<rparr>,
     origo = ''Narbo'', origo_lat = ''43.18'', origo_long = ''3.0'',
     origo_LatLong = ''43.18,3.0'', m_path = ''/p'', m_pid = ''P'', m_migrant = 1\<rparr>]"
  by code_simp

lemma drop_duplicates_subset: "set (drop_duplicates seen ms) \<subseteq> set ms"
  by (induction seen ms rule: drop_duplicates.induct) (auto simp: Let_def)

lemma drop_duplicates_keeps_key:
  "m \<in> set ms \<Longrightarrow> (e_id (source m), origo_LatLong m) \<notin> set seen \<Longrightarrow>
   \<exists>m' \<in> set (drop_duplicates seen ms).
     e_id (source m') = e_id (source m) \<and> origo_LatLong m' = origo_LatLong m"
proof (induction seen ms rule: drop_duplicates.induct)
  case (1 seen)
  then show ?case by simp
next
  case (2 seen x ms)
  show ?case
  proof (cases "(e_id (source x), origo_LatLong x) \<in> set seen")
    case True
    with "2.prems" have "m \<in> set ms" by auto
    with "2.IH"(1) True "2.prems" show ?thesis by (auto simp: Let_def)
  next
    case False
    show ?thesis
    proof (cases "(e_id (source m), origo_LatLong m) = (e_id (source x), origo_LatLong x)")
      case True
      with False show ?thesis by (auto simp: Let_def)
    next
      case ne: False
      with "2.prems" have "m \<in> set ms" by auto
      moreover from ne "2.prems" have
        "(e_id (source m), origo_LatLong m) \<notin> set ((e_id (source x), origo_LatLong x) # seen)"
        by auto
      ultimately have "\<exists>m' \<in> set (drop_duplicates ((e_id (source x), origo_LatLong x) # seen) ms).
         e_id (source m') = e_id (source m) \<and> origo_LatLong m' = origo_LatLong m"
        using "2.IH"(2) [OF refl False] by blast
      with False show ?thesis by (auto simp: Let_def)
    qed
  qed
qed

lemma place_matches_iff:
  "m \<in> set (place_matches edcs p) \<longleftrightarrow>
   (\<exists>tops. toponyms p = Some tops \<and> 6 \<le> length tops \<and>
     (\<exists>top' \<in> set (map strip (split_on (\<lambda>c. c = CHR '','') tops)).
        \<exists>e \<in> set edcs. \<exists>t. e_cleantext e = Some t \<and> contains t top' \<and> m = new_migrant e p))"
proof (cases "toponyms p")
  case None
  then show ?thesis by (simp add: place_matches_def)
next
  case (Some tops)
  show ?thesis
  proof (cases "length tops < 6")
    case True
    with Some show ?thesis by (simp add: place_matches_def)
  next
    case False
    have "m \<in> set (matches_of edcs p c) \<longleftrightarrow>
        (\<exists>e \<in> set edcs. \<exists>t. e_cleantext e = Some t \<and> contains t c \<and> m = new_migrant e p)" for c
      by (auto simp: matches_of_def split: option.splits if_splits) metis+
    with Some False show ?thesis
      by (simp add: place_matches_def)
  qed
qed

text \<open>
  C4, amended. Every migrant row comes from a candidate of a place whose cell of
  candidates is a string of length 6 or more, found in the clean text of a row: a place
  with a shorter cell, or with no string, is skipped. And every candidate of such a cell,
  whatever its own length, that is in the clean text of a row gives a migrant row with
  the identifier of that row and the coordinates of that place.
\<close>

theorem search_toponyms_cell_guard:
  "(m \<in> set (search_toponyms edcs places) \<longrightarrow>
     (\<exists>p \<in> set places. \<exists>tops. toponyms p = Some tops \<and> 6 \<le> length tops \<and>
        (\<exists>top' \<in> set (map strip (split_on (\<lambda>c. c = CHR '','') tops)).
           \<exists>e \<in> set edcs. \<exists>t. e_cleantext e = Some t \<and> contains t top' \<and> m = new_migrant e p))) \<and>
   (p \<in> set places \<and> toponyms p = Some tops \<and> 6 \<le> length tops \<and>
    top' \<in> set (map strip (split_on (\<lambda>c. c = CHR '','') tops)) \<and>
    e \<in> set edcs \<and> e_cleantext e = Some t \<and> contains t top' \<longrightarrow>
     (\<exists>m' \<in> set (search_toponyms edcs places).
        e_id (source m') = e_id e \<and> origo_LatLong m' = reprLatLong p))"
proof (intro conjI impI)
  assume "m \<in> set (search_toponyms edcs places)"
  then have "m \<in> set (concat (map (place_matches edcs) places))"
    using drop_duplicates_subset unfolding search_toponyms_def by blast
  then obtain p where "p \<in> set places" "m \<in> set (place_matches edcs p)"
    by auto
  then show "\<exists>p \<in> set places. \<exists>tops. toponyms p = Some tops \<and> 6 \<le> length tops \<and>
        (\<exists>top' \<in> set (map strip (split_on (\<lambda>c. c = CHR '','') tops)).
           \<exists>e \<in> set edcs. \<exists>t. e_cleantext e = Some t \<and> contains t top' \<and> m = new_migrant e p)"
    unfolding place_matches_iff by blast
next
  assume a: "p \<in> set places \<and> toponyms p = Some tops \<and> 6 \<le> length tops \<and>
    top' \<in> set (map strip (split_on (\<lambda>c. c = CHR '','') tops)) \<and>
    e \<in> set edcs \<and> e_cleantext e = Some t \<and> contains t top'"
  then have "new_migrant e p \<in> set (place_matches edcs p)"
    unfolding place_matches_iff by blast
  with a have "new_migrant e p \<in> set (concat (map (place_matches edcs) places))"
    by auto
  from drop_duplicates_keeps_key [OF this, of "[]"]
  show "\<exists>m' \<in> set (search_toponyms edcs places).
        e_id (source m') = e_id e \<and> origo_LatLong m' = reprLatLong p"
    by (simp add: search_toponyms_def new_migrant_def)
qed

theorem search_toponyms_cell_guard_witness:
  "6 \<le> length ''Narbensis, ensis'' \<and>
   ''ensis'' \<in> set (map strip (split_on (\<lambda>c. c = CHR '','') ''Narbensis, ensis'')) \<and>
   contains ''natus Narbonensis'' ''ensis'' \<and>
   (\<exists>m' \<in> set (search_toponyms
        [\<lparr>e_id = ''E1'', e_cleantext = Some ''natus Narbonensis'', e_rest = ()\<rparr>]
        [\<lparr>title = ''Narbo'', reprLat = ''43.18'', reprLong = ''3.0'',
          reprLatLong = ''43.18,3.0'', path = ''/p'', pid = ''P'',
          toponyms = Some ''Narbensis, ensis''\<rparr>]).
      e_id (source m') = ''E1'' \<and> origo_LatLong m' = ''43.18,3.0'')"
proof -
  let ?e = "\<lparr>e_id = ''E1'', e_cleantext = Some ''natus Narbonensis'', e_rest = ()\<rparr>"
  let ?p = "\<lparr>title = ''Narbo'', reprLat = ''43.18'', reprLong = ''3.0'',
    reprLatLong = ''43.18,3.0'', path = ''/p'', pid = ''P'',
    toponyms = Some ''Narbensis, ensis''\<rparr>"
  have a: "6 \<le> length ''Narbensis, ensis''"
    by simp
  have b: "''ensis'' \<in> set (map strip (split_on (\<lambda>c. c = CHR '','') ''Narbensis, ensis''))"
    by code_simp
  have c: "contains ''natus Narbonensis'' ''ensis''"
    by code_simp
  from a b c have h: "?p \<in> set [?p] \<and> toponyms ?p = Some ''Narbensis, ensis'' \<and>
      6 \<le> length ''Narbensis, ensis'' \<and>
      ''ensis'' \<in> set (map strip (split_on (\<lambda>c. c = CHR '','') ''Narbensis, ensis'')) \<and>
      ?e \<in> set [?e] \<and> e_cleantext ?e = Some ''natus Narbonensis'' \<and>
      contains ''natus Narbonensis'' ''ensis''"
    by simp
  have "\<exists>m' \<in> set (search_toponyms [?e] [?p]).
      e_id (source m') = e_id ?e \<and> origo_LatLong m' = reprLatLong ?p"
    using search_toponyms_cell_guard [where edcs = "[?e]" and places = "[?p]" and p = ?p
        and tops = "''Narbensis, ensis''" and top' = "''ensis''" and e = ?e
        and t = "''natus Narbonensis''"] h
    by blast
  with a b c show ?thesis
    by simp
qed

end
